theory Spec2Isabelle
  imports Main "HOL-Library.Word" "HOL-Library.Sublist"
begin

section \<open>JavaScript strings\<close>

text \<open>
  A JavaScript string is a sequence of 16-bit UTF-16 code units. The literals of
  \<^verbatim>\<open>App.tsx\<close> are ASCII, so \<open>utf16\<close> of an Isabelle string literal is the exact
  code unit sequence of the source literal.
\<close>

type_synonym jsstring = "16 word list"

definition utf16 :: "string \<Rightarrow> jsstring" where
  "utf16 cs = map (\<lambda>c. of_nat (of_char c)) cs"

text \<open>
  \<^verbatim>\<open>String.prototype.trim\<close> strips ECMAScript WhiteSpace and LineTerminator code points
  from both ends: TAB, LF, VT, FF, CR, SP, NBSP, U+1680, U+2000 .. U+200A, U+2028,
  U+2029, U+202F, U+205F, U+3000 and U+FEFF. All of them lie in the basic plane, so the
  test is one on single code units.
\<close>

definition isWhiteSpace :: "16 word \<Rightarrow> bool" where
  "isWhiteSpace c \<longleftrightarrow>
     c = 0x0009 \<or> c = 0x000A \<or> c = 0x000B \<or> c = 0x000C \<or> c = 0x000D \<or>
     c = 0x0020 \<or> c = 0x00A0 \<or> c = 0x1680 \<or> (0x2000 \<le> c \<and> c \<le> 0x200A) \<or>
     c = 0x2028 \<or> c = 0x2029 \<or> c = 0x202F \<or> c = 0x205F \<or> c = 0x3000 \<or>
     c = 0xFEFF"

definition trim :: "jsstring \<Rightarrow> jsstring" where
  "trim s = rev (dropWhile isWhiteSpace (rev (dropWhile isWhiteSpace s)))"

text \<open>
  The nullish coalescing operator \<^verbatim>\<open>a ?? d\<close>: \<open>None\<close> stands for \<^verbatim>\<open>null\<close> and
  \<^verbatim>\<open>undefined\<close>.
\<close>

definition nullish :: "'a option \<Rightarrow> 'a \<Rightarrow> 'a" where
  "nullish a d = (case a of None \<Rightarrow> d | Some v \<Rightarrow> v)"

section \<open>The component's state\<close>

text \<open>
  The entries of the transcript, \<^verbatim>\<open>{ type: "user" | "agent" | "system"; text: string }\<close>.
\<close>

datatype message_type = user | agent | system

record message =
  type :: message_type
  "text" :: jsstring

text \<open>
  The client of the SDK is opaque. What the component does to it is the sequence of
  method calls it makes, kept in the state as a trace, oldest call first.
\<close>

datatype client = RetellWebClient

datatype client_call =
    Client_startCall jsstring
  | Client_stopCall
  | Client_sendUserMessage jsstring

text \<open>
  The four \<^verbatim>\<open>useState\<close> cells, the \<^verbatim>\<open>useRef\<close> cell holding the client (\<open>None\<close> is
  \<^verbatim>\<open>null\<close>), and the trace of calls made on the client.
\<close>

record app_state =
  isCalling :: bool
  isAgentTalking :: bool
  messages :: "message list"
  input :: jsstring
  retellWebClientRef :: "client option"
  client_calls :: "client_call list"

definition agentId :: jsstring where
  "agentId = utf16 ''agent_1e1cc9d0370c420aab5f869e7e''"

text \<open>The state of the first render, before the effect has run.\<close>

definition initial_state :: app_state where
  "initial_state =
     \<lparr>isCalling = False, isAgentTalking = False, messages = [], input = [],
      retellWebClientRef = None, client_calls = []\<rparr>"

text \<open>
  The body of \<^verbatim>\<open>useEffect\<close>: it stores a new client in the ref. The subscriptions it
  makes are the handlers of the next section. Its cleanup resets the ref to \<^verbatim>\<open>null\<close>
  when the component unmounts; the model follows the component while it is mounted and
  keeps the ref in the state, so that both branches of every test on it are there.
\<close>

definition useEffect :: "app_state \<Rightarrow> app_state" where
  "useEffect s = s\<lparr>retellWebClientRef := Some RetellWebClient\<rparr>"

definition setIsCalling :: "bool \<Rightarrow> app_state \<Rightarrow> app_state" where
  "setIsCalling b s = s\<lparr>isCalling := b\<rparr>"

definition setIsAgentTalking :: "bool \<Rightarrow> app_state \<Rightarrow> app_state" where
  "setIsAgentTalking b s = s\<lparr>isAgentTalking := b\<rparr>"

definition setInput :: "jsstring \<Rightarrow> app_state \<Rightarrow> app_state" where
  "setInput t s = s\<lparr>input := t\<rparr>"

definition addMessage :: "jsstring \<Rightarrow> message_type \<Rightarrow> app_state \<Rightarrow> app_state" where
  "addMessage txt ty s = s\<lparr>messages := messages s @ [\<lparr>type = ty, text = txt\<rparr>]\<rparr>"

definition call_client :: "client_call \<Rightarrow> app_state \<Rightarrow> app_state" where
  "call_client c s = s\<lparr>client_calls := client_calls s @ [c]\<rparr>"

section \<open>The event handlers\<close>

text \<open>
  The payload of \<^verbatim>\<open>call_started\<close>, \<^verbatim>\<open>call_ended\<close> and \<^verbatim>\<open>error\<close> is a string or
  nullish. The payload of \<^verbatim>\<open>update\<close> is an object (the handler applies \<^verbatim>\<open>in\<close> to it,
  which is defined on objects only); the handler reads four of its keys. For each key,
  \<open>None\<close> says that the key is not \<^verbatim>\<open>in\<close> the object, \<open>Some None\<close> that it is there
  with a nullish value, \<open>Some (Some t)\<close> that it holds the string \<open>t\<close>.
\<close>

record update_payload =
  error :: "jsstring option option"
  status :: "jsstring option option"
  agent_message :: "jsstring option option"
  user_message :: "jsstring option option"

text \<open>
  The handlers close over the client the effect created, not over the ref, so their
  \<^verbatim>\<open>client.stopCall()\<close> does not depend on \<open>retellWebClientRef\<close>.
\<close>

definition on_call_started :: "jsstring option \<Rightarrow> app_state \<Rightarrow> app_state" where
  "on_call_started data s = addMessage (nullish data (utf16 ''Call started'')) system s"

definition on_call_ended :: "jsstring option \<Rightarrow> app_state \<Rightarrow> app_state" where
  "on_call_ended data s =
     setIsAgentTalking False
       (setIsCalling False (addMessage (nullish data (utf16 ''Call ended'')) system s))"

definition on_agent_start_talking :: "app_state \<Rightarrow> app_state" where
  "on_agent_start_talking s = setIsAgentTalking True s"

definition on_agent_stop_talking :: "app_state \<Rightarrow> app_state" where
  "on_agent_stop_talking s = setIsAgentTalking False s"

definition on_update :: "update_payload \<Rightarrow> app_state \<Rightarrow> app_state" where
  "on_update update s =
     (case error update of
        Some e \<Rightarrow>
          call_client Client_stopCall (addMessage (nullish e (utf16 ''Unknown error'')) system s)
      | None \<Rightarrow>
          (let s1 =
                 (case status update of
                    None \<Rightarrow> s
                  | Some st \<Rightarrow>
                      (let sl = (if st = Some (utf16 ''listening'')
                                 then addMessage (utf16 ''Agent is listening...'') system s
                                 else s)
                       in if st = Some (utf16 ''recognizing'')
                          then addMessage (utf16 ''Recognizing speech...'') system sl
                          else sl));
               s2 =
                 (case agent_message update of
                    None \<Rightarrow> s1
                  | Some m \<Rightarrow> addMessage (nullish m []) agent s1)
           in (case user_message update of
                 None \<Rightarrow> s2
               | Some m \<Rightarrow> addMessage (nullish m []) user s2)))"

definition on_error :: "jsstring option \<Rightarrow> app_state \<Rightarrow> app_state" where
  "on_error err s =
     call_client Client_stopCall (addMessage (nullish err (utf16 ''Unknown error'')) system s)"

text \<open>The six named events, and the dispatch \<^verbatim>\<open>client.on\<close> sets up.\<close>

datatype sdk_event =
    Call_started "jsstring option"
  | Call_ended "jsstring option"
  | Agent_start_talking
  | Agent_stop_talking
  | Update update_payload
  | Error "jsstring option"

fun handle_event :: "sdk_event \<Rightarrow> app_state \<Rightarrow> app_state" where
  "handle_event (Call_started data) s = on_call_started data s"
| "handle_event (Call_ended data) s = on_call_ended data s"
| "handle_event Agent_start_talking s = on_agent_start_talking s"
| "handle_event Agent_stop_talking s = on_agent_stop_talking s"
| "handle_event (Update update) s = on_update update s"
| "handle_event (Error err) s = on_error err s"

section \<open>The user's actions\<close>

definition startCall :: "app_state \<Rightarrow> app_state" where
  "startCall s =
     (case retellWebClientRef s of
        None \<Rightarrow> addMessage (utf16 ''Client not initialized'') system s
      | Some cl \<Rightarrow>
          call_client (Client_startCall agentId)
            (addMessage (utf16 ''Calling agent...'') system (setIsCalling True s)))"

definition stopCall :: "app_state \<Rightarrow> app_state" where
  "stopCall s =
     (case retellWebClientRef s of
        None \<Rightarrow> addMessage (utf16 ''Client not initialized'') system s
      | Some cl \<Rightarrow>
          addMessage (utf16 ''Call ended'') system
            (call_client Client_stopCall (setIsAgentTalking False (setIsCalling False s))))"

definition sendMessage :: "app_state \<Rightarrow> app_state" where
  "sendMessage s =
     (let msg = trim (input s) in
      case retellWebClientRef s of
        None \<Rightarrow> addMessage (utf16 ''Client not initialized'') system s
      | Some cl \<Rightarrow>
          if msg = [] then s
          else setInput [] (call_client (Client_sendUserMessage msg) (addMessage msg user s)))"

text \<open>
  Everything that can happen to the mounted component: an event of the SDK, a press on
  one of the two call buttons, a submit of the input field, an edit of the input field.
  Which button is shown and whether the input field is enabled depends on \<open>isCalling\<close>;
  the model does not restrict the operations by that, so every statement below holds in
  every state. A reaction of the SDK to a call made on it (such as a \<^verbatim>\<open>call_ended\<close> event
  after \<^verbatim>\<open>stopCall()\<close>) is an event of its own.
\<close>

datatype operation =
    Receive sdk_event
  | Press_startCall
  | Press_stopCall
  | Submit_sendMessage
  | ChangeText jsstring

fun step :: "app_state \<Rightarrow> operation \<Rightarrow> app_state" where
  "step s (Receive e) = handle_event e s"
| "step s Press_startCall = startCall s"
| "step s Press_stopCall = stopCall s"
| "step s Submit_sendMessage = sendMessage s"
| "step s (ChangeText t) = setInput t s"

definition run :: "app_state \<Rightarrow> operation list \<Rightarrow> app_state" where
  "run s ops = foldl step s ops"

section \<open>Concrete states and payloads\<close>

text \<open>
  The state after mounting, pressing Start Call and receiving \<^verbatim>\<open>agent_start_talking\<close>:
  both flags are set.
\<close>

definition calling_state :: app_state where
  "calling_state = on_agent_start_talking (startCall (useEffect initial_state))"

text \<open>The mounted component with \<^verbatim>\<open>"  hi  "\<close> typed into the input field.\<close>

definition typing_state :: app_state where
  "typing_state = setInput (utf16 ''  hi  '') (useEffect initial_state)"

text \<open>
  The mounted component with a space, a tab and an ideographic space (U+3000) typed
  into the input field.
\<close>

definition blank_state :: app_state where
  "blank_state = setInput [0x0020, 0x0009, 0x3000] (useEffect initial_state)"

text \<open>An update that carries a status, an agent message and a user message.\<close>

definition full_update :: update_payload where
  "full_update =
     \<lparr>error = None, status = Some (Some (utf16 ''listening'')),
      agent_message = Some (Some (utf16 ''Hello'')),
      user_message = Some (Some (utf16 ''Hi''))\<rparr>"

text \<open>An update that carries an error next to an agent message.\<close>

definition error_and_agent_message :: update_payload where
  "error_and_agent_message =
     \<lparr>error = Some (Some (utf16 ''boom'')), status = None,
      agent_message = Some (Some (utf16 ''Hello'')), user_message = None\<rparr>"

text \<open>An update whose only key is \<^verbatim>\<open>status\<close>, with a value the handler does not know.\<close>

definition idle_update :: update_payload where
  "idle_update =
     \<lparr>error = None, status = Some (Some (utf16 ''idle'')), agent_message = None,
      user_message = None\<rparr>"

text \<open>An update whose only key is \<^verbatim>\<open>user_message\<close>, holding \<^verbatim>\<open>null\<close>.\<close>

definition null_user_message :: update_payload where
  "null_user_message =
     \<lparr>error = None, status = None, agent_message = None, user_message = Some None\<rparr>"

section \<open>Basic facts about the state updates\<close>

lemmas state_defs =
  addMessage_def call_client_def setIsCalling_def setIsAgentTalking_def setInput_def

lemmas handler_defs =
  on_call_started_def on_call_ended_def on_agent_start_talking_def
  on_agent_stop_talking_def on_error_def

lemma messages_addMessage:
  "messages (addMessage txt ty s) = messages s @ [\<lparr>type = ty, text = txt\<rparr>]"
  by (simp add: addMessage_def)

lemma messages_frame:
  "messages (setIsCalling b s) = messages s"
  "messages (setIsAgentTalking b s) = messages s"
  "messages (setInput t s) = messages s"
  "messages (call_client c s) = messages s"
  by (simp_all add: state_defs)

lemma prefix_addMessage:
  "prefix xs (messages s) \<Longrightarrow> prefix xs (messages (addMessage txt ty s))"
  by (simp add: messages_addMessage)

lemma prefix_on_update: "prefix (messages s) (messages (on_update u s))"
  by (simp add: on_update_def Let_def messages_frame prefix_addMessage
      split: option.split)

lemma prefix_handle_event: "prefix (messages s) (messages (handle_event e s))"
  by (cases e)
     (simp_all add: handler_defs prefix_on_update messages_frame messages_addMessage)

lemma prefix_step: "prefix (messages s) (messages (step s op))"
  by (cases op)
     (simp_all add: prefix_handle_event startCall_def stopCall_def sendMessage_def
        Let_def messages_frame messages_addMessage split: option.split)

lemma prefix_run: "prefix (messages s) (messages (run s ops))"
proof (induction ops arbitrary: s)
  case Nil
  show ?case by (simp add: run_def)
next
  case (Cons op ops)
  have "prefix (messages s) (messages (step s op))"
    by (rule prefix_step)
  also have "prefix (messages (step s op)) (messages (run (step s op) ops))"
    by (rule Cons.IH)
  finally show ?case by (simp add: run_def)
qed

lemma listening_neq_recognizing: "utf16 ''listening'' \<noteq> utf16 ''recognizing''"
  by (simp add: utf16_def)

subsection \<open>What trim returns\<close>

text \<open>
  \<open>trim\<close> cuts a run of white space off each end and nothing else: the input is white
  space, then the result, then white space, and a result that is not empty neither
  starts nor ends with white space.
\<close>

lemma trim_all_whitespace:
  assumes "\<forall>c\<in>set t. isWhiteSpace c"
  shows "trim t = []"
proof -
  from assms have "dropWhile isWhiteSpace t = []"
    by (simp only: dropWhile_eq_Nil_conv)
  then have "trim t = rev (dropWhile isWhiteSpace (rev []))"
    by (simp only: trim_def)
  then show ?thesis by simp
qed

lemma trim_suffix:
  "dropWhile isWhiteSpace t =
     trim t @ rev (takeWhile isWhiteSpace (rev (dropWhile isWhiteSpace t)))"
proof -
  let ?d = "dropWhile isWhiteSpace t"
  have "rev (takeWhile isWhiteSpace (rev ?d) @ dropWhile isWhiteSpace (rev ?d)) = rev (rev ?d)"
    by (simp only: takeWhile_dropWhile_id)
  then have "rev (dropWhile isWhiteSpace (rev ?d)) @ rev (takeWhile isWhiteSpace (rev ?d)) = ?d"
    by (simp only: rev_append rev_rev_ident)
  then show ?thesis
    by (simp only: trim_def)
qed

lemma trim_decomposition:
  "\<exists>l r. t = l @ trim t @ r \<and> (\<forall>c\<in>set l. isWhiteSpace c) \<and> (\<forall>c\<in>set r. isWhiteSpace c)"
proof -
  let ?l = "takeWhile isWhiteSpace t"
  let ?d = "dropWhile isWhiteSpace t"
  let ?r = "rev (takeWhile isWhiteSpace (rev ?d))"
  have "t = ?l @ ?d" by simp
  also have "?d = trim t @ ?r" by (rule trim_suffix)
  finally have "t = ?l @ trim t @ ?r" .
  moreover have "\<forall>c\<in>set ?l. isWhiteSpace c"
    by (auto dest: set_takeWhileD)
  moreover have "\<forall>c\<in>set ?r. isWhiteSpace c"
    by (auto dest: set_takeWhileD)
  ultimately show ?thesis by blast
qed

lemma trim_ends:
  assumes ne: "trim t \<noteq> []"
  shows "\<not> isWhiteSpace (hd (trim t)) \<and> \<not> isWhiteSpace (last (trim t))"
proof -
  let ?d = "dropWhile isWhiteSpace t"
  let ?e = "dropWhile isWhiteSpace (rev ?d)"
  have e: "?e \<noteq> []" using ne by (simp only: trim_def rev_is_Nil_conv not_False_eq_True)
  then have "\<not> isWhiteSpace (hd ?e)" by (rule hd_dropWhile)
  moreover have "last (trim t) = hd ?e"
    using e by (simp only: trim_def last_rev)
  ultimately have last: "\<not> isWhiteSpace (last (trim t))" by simp
  have "?d = trim t @ rev (takeWhile isWhiteSpace (rev ?d))" by (rule trim_suffix)
  then have "hd ?d = hd (trim t @ rev (takeWhile isWhiteSpace (rev ?d)))"
    by (rule arg_cong)
  also from ne have "\<dots> = hd (trim t)" by (rule hd_append2)
  finally have hd_eq: "hd ?d = hd (trim t)" .
  have "?d \<noteq> []"
  proof
    assume "?d = []"
    then have "?e = dropWhile isWhiteSpace (rev [])" by (simp only:)
    then have "?e = []" by simp
    with e show False by contradiction
  qed
  then have "\<not> isWhiteSpace (hd ?d)" by (rule hd_dropWhile)
  with hd_eq last show ?thesis by simp
qed

lemma trim_typing_state: "trim (input typing_state) = utf16 ''hi''"
  by (simp add: typing_state_def utf16_def setInput_def trim_def isWhiteSpace_def)

section \<open>What an event does to the transcript and the flags\<close>

text \<open>
  The statement "every event appends exactly one entry and changes at most one flag"
  fails three ways. \<^verbatim>\<open>agent_start_talking\<close> appends nothing; \<^verbatim>\<open>call_ended\<close>, received
  while both flags are set, clears both; an update with a status, an agent message and a
  user message appends three entries.
\<close>

theorem one_entry_one_flag_counterexample:
  "length (messages (handle_event Agent_start_talking initial_state))
     \<noteq> length (messages initial_state) + 1 \<and>
   isCalling (handle_event (Call_ended None) calling_state) \<noteq> isCalling calling_state \<and>
   isAgentTalking (handle_event (Call_ended None) calling_state)
     \<noteq> isAgentTalking calling_state \<and>
   length (messages (handle_event (Update full_update) initial_state))
     = length (messages initial_state) + 3"
  by (simp add: calling_state_def full_update_def initial_state_def useEffect_def
      startCall_def utf16_def nullish_def on_update_def state_defs handler_defs)

text \<open>
  Claim C1, amended. Every handler only appends to the transcript. \<^verbatim>\<open>call_started\<close>,
  \<^verbatim>\<open>error\<close> and an update with an \<^verbatim>\<open>error\<close> key append exactly one entry and change no
  flag. \<^verbatim>\<open>call_ended\<close> appends exactly one entry and clears both flags.
  \<^verbatim>\<open>agent_start_talking\<close> and \<^verbatim>\<open>agent_stop_talking\<close> append nothing and set, respectively
  clear, the agent-speaking flag only. An update without an \<^verbatim>\<open>error\<close> key changes no flag
  and appends one entry if its status is \<^verbatim>\<open>listening\<close> or \<^verbatim>\<open>recognizing\<close>, one if it
  has an \<^verbatim>\<open>agent_message\<close> key and one if it has a \<^verbatim>\<open>user_message\<close> key: between
  none and three.
\<close>

theorem handle_event_effect:
  "prefix (messages s) (messages (handle_event e s)) \<and>
   (case e of
      Call_started d \<Rightarrow>
        length (messages (handle_event e s)) = length (messages s) + 1 \<and>
        isCalling (handle_event e s) = isCalling s \<and>
        isAgentTalking (handle_event e s) = isAgentTalking s
    | Call_ended d \<Rightarrow>
        length (messages (handle_event e s)) = length (messages s) + 1 \<and>
        \<not> isCalling (handle_event e s) \<and> \<not> isAgentTalking (handle_event e s)
    | Agent_start_talking \<Rightarrow>
        messages (handle_event e s) = messages s \<and>
        isCalling (handle_event e s) = isCalling s \<and> isAgentTalking (handle_event e s)
    | Agent_stop_talking \<Rightarrow>
        messages (handle_event e s) = messages s \<and>
        isCalling (handle_event e s) = isCalling s \<and> \<not> isAgentTalking (handle_event e s)
    | Update u \<Rightarrow>
        length (messages (handle_event e s)) =
          length (messages s) +
          (if error u \<noteq> None then 1
           else (if status u = Some (Some (utf16 ''listening'')) \<or>
                    status u = Some (Some (utf16 ''recognizing'')) then 1 else 0) +
                (if agent_message u \<noteq> None then 1 else 0) +
                (if user_message u \<noteq> None then 1 else 0)) \<and>
        isCalling (handle_event e s) = isCalling s \<and>
        isAgentTalking (handle_event e s) = isAgentTalking s
    | Error d \<Rightarrow>
        length (messages (handle_event e s)) = length (messages s) + 1 \<and>
        isCalling (handle_event e s) = isCalling s \<and>
        isAgentTalking (handle_event e s) = isAgentTalking s)"
proof (cases e)
  case (Update u)
  show ?thesis
    unfolding Update
    using listening_neq_recognizing
    by (auto simp: on_update_def Let_def state_defs split: option.split)
qed (simp_all add: handler_defs state_defs)

theorem handle_event_effect_witness:
  "length (messages (handle_event (Update full_update) calling_state))
     = length (messages calling_state) + 3 \<and>
   isCalling (handle_event (Update full_update) calling_state) \<and>
   isAgentTalking (handle_event (Update full_update) calling_state) \<and>
   \<not> isCalling (handle_event (Call_ended None) calling_state) \<and>
   \<not> isAgentTalking (handle_event (Call_ended None) calling_state)"
proof -
  have flags: "isCalling calling_state \<and> isAgentTalking calling_state"
    by (simp add: calling_state_def initial_state_def useEffect_def startCall_def
        state_defs handler_defs)
  have fields: "error full_update = None \<and> status full_update = Some (Some (utf16 ''listening''))
      \<and> agent_message full_update \<noteq> None \<and> user_message full_update \<noteq> None"
    by (simp add: full_update_def)
  from handle_event_effect [where s = calling_state and e = "Update full_update"]
    handle_event_effect [where s = calling_state and e = "Call_ended None"]
    flags fields
  show ?thesis by simp
qed

section \<open>The transcript is append-only\<close>

text \<open>
  Claim C2. Every operation of the program (an event handler, startCall, stopCall,
  sendMessage, an edit of the input field) and every sequence of them leaves the prior
  message list as a prefix of the resulting one: the entries that were there are still
  there, at the same positions, with the same kind and text.
\<close>

theorem transcript_append_only:
  "prefix (messages s) (messages (step s op)) \<and>
   prefix (messages s) (messages (run s ops)) \<and>
   take (length (messages s)) (messages (run s ops)) = messages s"
proof -
  have "prefix (messages s) (messages (run s ops))"
    by (rule prefix_run)
  moreover from this have "take (length (messages s)) (messages (run s ops)) = messages s"
    by (auto simp: prefix_def)
  ultimately show ?thesis
    by (simp add: prefix_step)
qed

section \<open>Agent messages\<close>

text \<open>
  An update that has an \<^verbatim>\<open>error\<close> key next to its \<^verbatim>\<open>agent_message\<close> key appends the
  error as a system entry and returns: no agent entry is appended.
\<close>

theorem agent_message_counterexample:
  "agent_message error_and_agent_message = Some (Some (utf16 ''Hello'')) \<and>
   messages (handle_event (Update error_and_agent_message) initial_state) =
     [\<lparr>type = system, text = utf16 ''boom''\<rparr>]"
  by (simp add: error_and_agent_message_def initial_state_def nullish_def on_update_def
      state_defs)

text \<open>
  Claim C3, amended. For every update whose payload has no \<^verbatim>\<open>error\<close> key and has an
  \<^verbatim>\<open>agent_message\<close> key, exactly one of the entries the handler appends is of kind agent,
  and its text is the value of \<^verbatim>\<open>agent_message\<close> (the empty string when that value is
  nullish).
\<close>

theorem agent_message_appended:
  assumes "error u = None" and "agent_message u = Some m"
  shows "prefix (messages s) (messages (handle_event (Update u) s)) \<and>
         filter (\<lambda>x. type x = agent)
           (drop (length (messages s)) (messages (handle_event (Update u) s))) =
           [\<lparr>type = agent, text = nullish m []\<rparr>]"
  using assms
  by (auto simp: on_update_def Let_def state_defs split: option.split)

theorem agent_message_appended_witness:
  "error full_update = None \<and>
   agent_message full_update = Some (Some (utf16 ''Hello'')) \<and>
   filter (\<lambda>x. type x = agent)
     (drop (length (messages calling_state))
        (messages (handle_event (Update full_update) calling_state))) =
     [\<lparr>type = agent, text = utf16 ''Hello''\<rparr>]"
proof -
  have e: "error full_update = None"
    by (simp add: full_update_def)
  have a: "agent_message full_update = Some (Some (utf16 ''Hello''))"
    by (simp add: full_update_def)
  from agent_message_appended [OF e a, of calling_state] e a
  show ?thesis by (simp add: nullish_def)
qed

section \<open>Failure signals\<close>

text \<open>
  Claim C4. On an \<^verbatim>\<open>error\<close> event and on an update with an \<^verbatim>\<open>error\<close> key the handler
  appends one system entry whose text is the error string of the SDK (\<^verbatim>\<open>Unknown error\<close>
  when the SDK gave a nullish one), calls \<^verbatim>\<open>stopCall()\<close> on the client, and does nothing
  else: no other call on the client, no other change of the state.
\<close>

theorem error_signal_handling:
  "handle_event (Error err) s =
     s\<lparr>messages :=
         messages s @ [\<lparr>type = system, text = nullish err (utf16 ''Unknown error'')\<rparr>],
       client_calls := client_calls s @ [Client_stopCall]\<rparr> \<and>
   (error u = Some e \<longrightarrow>
      handle_event (Update u) s =
        s\<lparr>messages :=
            messages s @ [\<lparr>type = system, text = nullish e (utf16 ''Unknown error'')\<rparr>],
          client_calls := client_calls s @ [Client_stopCall]\<rparr>)"
  by (simp add: on_error_def on_update_def state_defs)

theorem error_signal_handling_witness:
  "error error_and_agent_message = Some (Some (utf16 ''boom'')) \<and>
   handle_event (Update error_and_agent_message) initial_state =
     initial_state\<lparr>messages := [\<lparr>type = system, text = utf16 ''boom''\<rparr>],
       client_calls := [Client_stopCall]\<rparr> \<and>
   handle_event (Error None) initial_state =
     initial_state\<lparr>messages := [\<lparr>type = system, text = utf16 ''Unknown error''\<rparr>],
       client_calls := [Client_stopCall]\<rparr>"
proof -
  have e: "error error_and_agent_message = Some (Some (utf16 ''boom''))"
    by (simp add: error_and_agent_message_def)
  have i: "messages initial_state = [] \<and> client_calls initial_state = []"
    by (simp add: initial_state_def)
  from error_signal_handling [where s = initial_state and err = None
      and u = error_and_agent_message and e = "Some (utf16 ''boom'')"] e i
  show ?thesis by (simp add: nullish_def)
qed

section \<open>Which events add a line\<close>

text \<open>
  The handlers of \<^verbatim>\<open>agent_start_talking\<close> and \<^verbatim>\<open>agent_stop_talking\<close> append no entry,
  and neither does the handler of \<^verbatim>\<open>update\<close> on a payload that has only a status other
  than \<^verbatim>\<open>listening\<close> and \<^verbatim>\<open>recognizing\<close>.
\<close>

theorem no_entry_counterexample:
  "messages (handle_event Agent_start_talking initial_state) = messages initial_state \<and>
   messages (handle_event Agent_stop_talking initial_state) = messages initial_state \<and>
   messages (handle_event (Update idle_update) initial_state) = messages initial_state"
  by (simp add: idle_update_def utf16_def on_update_def handler_defs state_defs)

text \<open>
  Claim C5, amended. The handler appends at least one transcript entry exactly for
  \<^verbatim>\<open>call_started\<close>, \<^verbatim>\<open>call_ended\<close>, \<^verbatim>\<open>error\<close>, and an update whose payload has an
  \<^verbatim>\<open>error\<close>, \<^verbatim>\<open>agent_message\<close> or \<^verbatim>\<open>user_message\<close> key or the status \<^verbatim>\<open>listening\<close>
  or \<^verbatim>\<open>recognizing\<close>. \<^verbatim>\<open>agent_start_talking\<close>, \<^verbatim>\<open>agent_stop_talking\<close> and every other
  update append none.
\<close>

theorem event_appends_iff:
  "length (messages s) < length (messages (handle_event e s)) \<longleftrightarrow>
   (case e of
      Agent_start_talking \<Rightarrow> False
    | Agent_stop_talking \<Rightarrow> False
    | Update u \<Rightarrow>
        error u \<noteq> None \<or> status u = Some (Some (utf16 ''listening'')) \<or>
        status u = Some (Some (utf16 ''recognizing'')) \<or>
        agent_message u \<noteq> None \<or> user_message u \<noteq> None
    | _ \<Rightarrow> True)"
  by (cases e)
     (auto simp: on_update_def Let_def handler_defs state_defs split: option.splits)

theorem event_appends_iff_witness:
  "user_message null_user_message \<noteq> None \<and>
   length (messages calling_state)
     < length (messages (handle_event (Update null_user_message) calling_state)) \<and>
   length (messages calling_state)
     < length (messages (handle_event (Call_started None) calling_state))"
proof -
  have u: "user_message null_user_message \<noteq> None"
    by (simp add: null_user_message_def)
  from event_appends_iff [where s = calling_state and e = "Update null_user_message"]
    event_appends_iff [where s = calling_state and e = "Call_started None"] u
  show ?thesis by simp
qed

section \<open>The calls made on the client\<close>

text \<open>
  Claim C6. With a client in the ref, startCall calls \<^verbatim>\<open>startCall\<close> with the configured
  agent id, stopCall calls \<^verbatim>\<open>stopCall\<close> with no argument, and sendMessage, when the
  trimmed input is not empty, calls \<^verbatim>\<open>sendUserMessage\<close> with the trimmed input. No
  operation makes a call on the client other than these three.
\<close>

theorem client_call_arguments:
  "(retellWebClientRef s \<noteq> None \<longrightarrow>
      client_calls (startCall s) = client_calls s @ [Client_startCall agentId]) \<and>
   (retellWebClientRef s \<noteq> None \<longrightarrow>
      client_calls (stopCall s) = client_calls s @ [Client_stopCall]) \<and>
   (retellWebClientRef s \<noteq> None \<and> trim (input s) \<noteq> [] \<longrightarrow>
      client_calls (sendMessage s) =
        client_calls s @ [Client_sendUserMessage (trim (input s))]) \<and>
   (\<forall>c \<in> set (drop (length (client_calls s)) (client_calls (step s op))).
      c = Client_startCall agentId \<or> c = Client_stopCall \<or>
      c = Client_sendUserMessage (trim (input s)))"
proof -
  have "c = Client_startCall agentId \<or> c = Client_stopCall \<or>
        c = Client_sendUserMessage (trim (input s))"
    if "c \<in> set (drop (length (client_calls s)) (client_calls (step s op)))" for c
  proof (cases op)
    case (Receive e)
    with that show ?thesis
      by (cases e)
         (auto simp: on_update_def Let_def handler_defs state_defs
            split: option.splits if_splits)
  qed (use that in \<open>auto simp: startCall_def stopCall_def sendMessage_def Let_def state_defs
         split: option.splits if_splits\<close>)
  then show ?thesis
    by (auto simp: startCall_def stopCall_def sendMessage_def Let_def state_defs)
qed

theorem client_call_arguments_witness:
  "retellWebClientRef typing_state \<noteq> None \<and>
   trim (input typing_state) = utf16 ''hi'' \<and>
   client_calls (startCall typing_state) =
     [Client_startCall (utf16 ''agent_1e1cc9d0370c420aab5f869e7e'')] \<and>
   client_calls (stopCall typing_state) = [Client_stopCall] \<and>
   client_calls (sendMessage typing_state) = [Client_sendUserMessage (utf16 ''hi'')]"
proof -
  have r: "retellWebClientRef typing_state \<noteq> None"
    by (simp add: typing_state_def useEffect_def setInput_def)
  have c: "client_calls typing_state = []"
    by (simp add: typing_state_def useEffect_def setInput_def initial_state_def)
  have t: "trim (input typing_state) = utf16 ''hi''"
    by (rule trim_typing_state)
  have n: "utf16 ''hi'' \<noteq> []"
    by (simp add: utf16_def)
  from client_call_arguments [where s = typing_state and op = Press_startCall] r c t n
  show ?thesis by (simp add: agentId_def)
qed

section \<open>The kinds of the entries\<close>

text \<open>
  Claim C7. An entry is a pair of a kind and a text, and every entry an operation appends
  has the kind user, agent or system. Which of the three is fixed by the operation. The
  entries of \<^verbatim>\<open>call_started\<close>, \<^verbatim>\<open>call_ended\<close> and \<^verbatim>\<open>error\<close>, of an update's
  \<^verbatim>\<open>error\<close> key and of its status, of startCall and stopCall, and of sendMessage
  without a client are system entries. The entry of an update's \<^verbatim>\<open>agent_message\<close> key
  is an agent entry. The entry of an update's \<^verbatim>\<open>user_message\<close> key and the entry of
  sendMessage for a text that is not blank are user entries. Nothing else is appended:
  the list below is, in order, the kinds of all the entries the operation adds.
\<close>

theorem appended_entry_kinds:
  "map type (drop (length (messages s)) (messages (step s op))) =
   (case op of
      Receive e \<Rightarrow>
        (case e of
           Call_started d \<Rightarrow> [system]
         | Call_ended d \<Rightarrow> [system]
         | Agent_start_talking \<Rightarrow> []
         | Agent_stop_talking \<Rightarrow> []
         | Update u \<Rightarrow>
             if error u \<noteq> None then [system]
             else (if status u = Some (Some (utf16 ''listening'')) \<or>
                      status u = Some (Some (utf16 ''recognizing'')) then [system] else []) @
                  (if agent_message u \<noteq> None then [agent] else []) @
                  (if user_message u \<noteq> None then [user] else [])
         | Error d \<Rightarrow> [system])
    | Press_startCall \<Rightarrow> [system]
    | Press_stopCall \<Rightarrow> [system]
    | Submit_sendMessage \<Rightarrow>
        if retellWebClientRef s = None then [system]
        else if trim (input s) = [] then [] else [user]
    | ChangeText t \<Rightarrow> [])"
proof (cases op)
  case (Receive e)
  show ?thesis
  proof (cases e)
    case (Update u)
    show ?thesis
      unfolding Receive Update
      using listening_neq_recognizing
      by (auto simp: on_update_def Let_def state_defs split: option.split)
  qed (simp_all add: Receive handler_defs state_defs)
next
  case Submit_sendMessage
  show ?thesis
    unfolding Submit_sendMessage
    by (auto simp: sendMessage_def Let_def state_defs split: option.split)
qed (auto simp: startCall_def stopCall_def state_defs split: option.split)

theorem appended_entry_kinds_witness:
  "map type (messages (step typing_state Submit_sendMessage)) = [user] \<and>
   map type (messages (step typing_state Press_stopCall)) = [system] \<and>
   map type (messages (step typing_state (Receive (Update full_update)))) =
     [system, agent, user]"
proof -
  have m: "messages typing_state = []"
    by (simp add: typing_state_def useEffect_def setInput_def initial_state_def)
  have r: "retellWebClientRef typing_state \<noteq> None"
    by (simp add: typing_state_def useEffect_def setInput_def)
  have t: "trim (input typing_state) \<noteq> []"
    by (simp add: trim_typing_state utf16_def)
  have u: "error full_update = None \<and> status full_update = Some (Some (utf16 ''listening''))
      \<and> agent_message full_update \<noteq> None \<and> user_message full_update \<noteq> None"
    by (simp add: full_update_def)
  from appended_entry_kinds [where s = typing_state and op = Submit_sendMessage]
    appended_entry_kinds [where s = typing_state and op = Press_stopCall]
    appended_entry_kinds [where s = typing_state and op = "Receive (Update full_update)"]
    m r t u
  show ?thesis by (simp del: step.simps)
qed

section \<open>Sending a blank input\<close>

text \<open>
  Claim C8. With a client in the ref, sendMessage on an input that is empty or white
  space only changes nothing: the transcript, the calls made on the client, the input
  field and both flags stay as they are.
\<close>

theorem sendMessage_blank_input:
  assumes "retellWebClientRef s \<noteq> None" and "\<forall>c\<in>set (input s). isWhiteSpace c"
  shows "sendMessage s = s"
  using assms by (auto simp: sendMessage_def trim_all_whitespace)

theorem sendMessage_blank_input_witness:
  "retellWebClientRef blank_state \<noteq> None \<and>
   input blank_state = [0x0020, 0x0009, 0x3000] \<and>
   isWhiteSpace 0x0020 \<and> isWhiteSpace 0x0009 \<and> isWhiteSpace 0x3000 \<and>
   sendMessage blank_state = blank_state"
proof -
  have r: "retellWebClientRef blank_state \<noteq> None"
    by (simp add: blank_state_def useEffect_def setInput_def)
  have i: "input blank_state = [0x0020, 0x0009, 0x3000]"
    by (simp add: blank_state_def setInput_def)
  have w: "isWhiteSpace 0x0020 \<and> isWhiteSpace 0x0009 \<and> isWhiteSpace 0x3000"
    by (simp add: isWhiteSpace_def)
  from i w have a: "\<forall>c\<in>set (input blank_state). isWhiteSpace c"
    by simp
  from sendMessage_blank_input [OF r a] r i w
  show ?thesis by simp
qed

section \<open>Errors leave the flags and the other fields alone\<close>

text \<open>
  Claim C9. An \<^verbatim>\<open>error\<close> event and an update with an \<^verbatim>\<open>error\<close> key leave both flags as
  they are and append exactly one entry, of kind system. For the update, the result does
  not depend on the keys \<^verbatim>\<open>status\<close>, \<^verbatim>\<open>agent_message\<close> and \<^verbatim>\<open>user_message\<close>.
\<close>

theorem error_signal_frame:
  "isCalling (handle_event (Error err) s) = isCalling s \<and>
   isAgentTalking (handle_event (Error err) s) = isAgentTalking s \<and>
   length (messages (handle_event (Error err) s)) = length (messages s) + 1 \<and>
   type (last (messages (handle_event (Error err) s))) = system \<and>
   (error u \<noteq> None \<longrightarrow>
      isCalling (handle_event (Update u) s) = isCalling s \<and>
      isAgentTalking (handle_event (Update u) s) = isAgentTalking s \<and>
      length (messages (handle_event (Update u) s)) = length (messages s) + 1 \<and>
      type (last (messages (handle_event (Update u) s))) = system \<and>
      handle_event (Update (u\<lparr>status := st, agent_message := am, user_message := um\<rparr>)) s =
        handle_event (Update u) s)"
  by (auto simp: on_error_def on_update_def state_defs)

theorem error_signal_frame_witness:
  "error error_and_agent_message \<noteq> None \<and>
   isCalling (handle_event (Update error_and_agent_message) calling_state) \<and>
   isAgentTalking (handle_event (Update error_and_agent_message) calling_state) \<and>
   length (messages (handle_event (Update error_and_agent_message) calling_state)) = 2 \<and>
   handle_event
     (Update \<lparr>error = Some (Some (utf16 ''boom'')), status = None, agent_message = None,
        user_message = None\<rparr>) calling_state =
     handle_event (Update error_and_agent_message) calling_state"
proof -
  have e: "error error_and_agent_message \<noteq> None"
    by (simp add: error_and_agent_message_def)
  have s: "isCalling calling_state \<and> isAgentTalking calling_state \<and>
      length (messages calling_state) = 1"
    by (simp add: calling_state_def initial_state_def useEffect_def startCall_def
        state_defs handler_defs)
  have u: "error_and_agent_message\<lparr>status := None, agent_message := None, user_message := None\<rparr>
      = \<lparr>error = Some (Some (utf16 ''boom'')), status = None, agent_message = None,
         user_message = None\<rparr>"
    by (simp add: error_and_agent_message_def)
  from error_signal_frame [where s = calling_state and u = error_and_agent_message
      and st = None and am = None and um = None] e s u
  show ?thesis by simp
qed

section \<open>Stopping the call\<close>

text \<open>
  Claim C10. With a client in the ref, stopCall clears both flags, calls \<^verbatim>\<open>stopCall()\<close>
  on the client, appends the one system entry \<^verbatim>\<open>Call ended\<close> and changes nothing else.
  With no client in the ref, it appends the one system entry \<^verbatim>\<open>Client not initialized\<close>
  and changes nothing else.
\<close>

theorem stopCall_effect:
  "(retellWebClientRef s \<noteq> None \<longrightarrow>
      stopCall s =
        s\<lparr>isCalling := False, isAgentTalking := False,
          messages := messages s @ [\<lparr>type = system, text = utf16 ''Call ended''\<rparr>],
          client_calls := client_calls s @ [Client_stopCall]\<rparr>) \<and>
   (retellWebClientRef s = None \<longrightarrow>
      stopCall s =
        s\<lparr>messages := messages s @
            [\<lparr>type = system, text = utf16 ''Client not initialized''\<rparr>]\<rparr>)"
  by (auto simp: stopCall_def state_defs)

theorem stopCall_effect_witness:
  "retellWebClientRef calling_state \<noteq> None \<and>
   \<not> isCalling (stopCall calling_state) \<and>
   \<not> isAgentTalking (stopCall calling_state) \<and>
   last (messages (stopCall calling_state)) = \<lparr>type = system, text = utf16 ''Call ended''\<rparr> \<and>
   last (client_calls (stopCall calling_state)) = Client_stopCall \<and>
   retellWebClientRef initial_state = None \<and>
   stopCall initial_state =
     initial_state\<lparr>messages := [\<lparr>type = system, text = utf16 ''Client not initialized''\<rparr>]\<rparr>"
proof -
  have r: "retellWebClientRef calling_state \<noteq> None"
    by (simp add: calling_state_def initial_state_def useEffect_def startCall_def
        state_defs handler_defs)
  have i: "retellWebClientRef initial_state = None \<and> messages initial_state = []"
    by (simp add: initial_state_def)
  from stopCall_effect [of calling_state] stopCall_effect [of initial_state] r i
  show ?thesis by simp
qed

end
